theory Spec2Isabelle
  imports Main "HOL-Library.Word"
begin

unbundle bit_operations_syntax

section \<open>The BBO packet of \<open>src/host/bbo_receiver.c\<close>\<close>

text \<open>
  The receiver reads 48-byte records from a device into a packed C struct and prints
  them. Bytes are \<open>8 word\<close>, the \<open>uint32_t\<close> members are \<open>32 word\<close>: comparison on
  words is the unsigned one and \<open>-\<close>, \<open>*\<close> wrap modulo \<open>2 ^ 32\<close>, as C's unsigned
  arithmetic does.
\<close>

type_synonym u8 = "8 word"
type_synonym u32 = "32 word"

definition BBO_PACKET_SIZE :: nat where
  "BBO_PACKET_SIZE = 48"

text \<open>
  \<open>typedef struct { char symbol[8]; uint32_t bid_price; ... uint32_t padding; } BboPacket\<close>,
  members in declaration order. The specification calls \<open>ts_t1 .. ts_t4\<close>
  \<open>ts_parse\<close>, \<open>ts_fifo_write\<close>, \<open>ts_fifo_read\<close> and \<open>ts_tx_start\<close>.
\<close>

record BboPacket =
  symbol :: "u8 list"
  bid_price :: u32
  bid_size :: u32
  ask_price :: u32
  ask_size :: u32
  spread :: u32
  ts_t1 :: u32
  ts_t2 :: u32
  ts_t3 :: u32
  ts_t4 :: u32
  padding :: u32

subsection \<open>The packed layout\<close>

text \<open>
  The struct is declared under \<open>#pragma pack(push, 1)\<close>: no padding is inserted, so a
  member starts where the members declared before it end. \<open>member_sizes\<close> lists
  \<open>sizeof\<close> of the eleven members in declaration order and \<open>member_offset k\<close> is the
  offset of member number \<open>k\<close>.
\<close>

definition member_sizes :: "nat list" where
  "member_sizes = [8, 4, 4, 4, 4, 4, 4, 4, 4, 4, 4]"

definition member_offset :: "nat \<Rightarrow> nat" where
  "member_offset k = sum_list (take k member_sizes)"

text \<open>The bytes of an object of \<open>n\<close> bytes at offset \<open>off\<close> of a memory block.\<close>

definition member_bytes :: "u8 list \<Rightarrow> nat \<Rightarrow> nat \<Rightarrow> u8 list" where
  "member_bytes mem off n = take n (drop off mem)"

text \<open>
  Reading a \<open>uint32_t\<close> member. The program is built for Windows targets, which are
  little-endian, and its header comment documents the wire integers as little-endian:
  the byte at the lowest address is the least significant. \<open>word_rcat\<close> concatenates
  most significant byte first, hence the \<open>rev\<close>.
\<close>

definition load_u32 :: "u8 list \<Rightarrow> nat \<Rightarrow> u32" where
  "load_u32 mem off = word_rcat (rev (member_bytes mem off 4))"

text \<open>
  The members of the \<open>BboPacket\<close> that lies in the 48 bytes \<open>mem\<close>: what
  \<open>bbo->symbol\<close>, \<open>bbo->bid_price\<close>, ... evaluate to after
  \<open>ReadFile(hDevice, &bbo, BBO_PACKET_SIZE, &bytesRead, NULL)\<close> has stored the bytes.
  This is the field codec \<open>decode_fields\<close> of the specification.
\<close>

definition decode_fields :: "u8 list \<Rightarrow> BboPacket" where
  "decode_fields mem =
     \<lparr> symbol = member_bytes mem (member_offset 0) 8,
       bid_price = load_u32 mem (member_offset 1),
       bid_size = load_u32 mem (member_offset 2),
       ask_price = load_u32 mem (member_offset 3),
       ask_size = load_u32 mem (member_offset 4),
       spread = load_u32 mem (member_offset 5),
       ts_t1 = load_u32 mem (member_offset 6),
       ts_t2 = load_u32 mem (member_offset 7),
       ts_t3 = load_u32 mem (member_offset 8),
       ts_t4 = load_u32 mem (member_offset 9),
       padding = load_u32 mem (member_offset 10) \<rparr>"

text \<open>
  The little-endian value of four bytes, written out as arithmetic: the reading of
  "little-endian unsigned 32-bit interpretation" that the theorems below are stated with.
\<close>

definition le32_value :: "u8 \<Rightarrow> u8 \<Rightarrow> u8 \<Rightarrow> u8 \<Rightarrow> nat" where
  "le32_value b0 b1 b2 b3 = unat b0 + 256 * unat b1 + 65536 * unat b2 + 16777216 * unat b3"

text \<open>
  The 32-bit word with that value, for the four bytes at offset \<open>off\<close> of a buffer:
  the specification's reading of a field at a documented offset, with no reference to
  the struct.
\<close>

definition le32 :: "u8 list \<Rightarrow> nat \<Rightarrow> u32" where
  "le32 buf off =
     of_nat (le32_value (buf ! off) (buf ! (off + 1)) (buf ! (off + 2)) (buf ! (off + 3)))"

subsection \<open>What the program prints\<close>

text \<open>
  The program's only effect on a received packet is the text it prints. A line is
  modelled by the \<open>printf\<close> that produces it, with the values of its arguments:
  \<^item> \<open>BboLine index symbol bid_price bid_size ask_price ask_size spread\<close> for
    \<open>"[%4d] Symbol: %-8s | Bid: %8u @ %8u | Ask: %8u @ %8u | Spread: %u\n"\<close>;
  \<^item> \<open>TimestampLine t1 t2 t3 t4 latency_ns\<close> for
    \<open>"       Timestamps: T1=%u T2=%u T3=%u T4=%u | Latency: %u ns\n"\<close>;
  \<^item> \<open>PaddingWarning padding\<close> for
    \<open>"       WARNING: Invalid padding 0x%08X (expected 0xDEADBEEF)\n"\<close>;
  \<^item> \<open>NoDataLine\<close> for \<open>"No data available, waiting...\n"\<close>;
  \<^item> \<open>PartialReadLine bytesRead expected\<close> for
    \<open>"WARNING: Partial read %lu bytes (expected %d)\n"\<close>.
\<close>

datatype out_line =
    BboLine int "u8 list" u32 u32 u32 u32 u32
  | TimestampLine u32 u32 u32 u32 u32
  | PaddingWarning u32
  | NoDataLine
  | PartialReadLine nat nat

text \<open>The lines whose text starts with \<open>WARNING:\<close>.\<close>

fun is_warning :: "out_line \<Rightarrow> bool" where
  "is_warning (PaddingWarning v) = True"
| "is_warning (PartialReadLine n e) = True"
| "is_warning l = False"

text \<open>The lines that report a latency.\<close>

fun is_timestamp :: "out_line \<Rightarrow> bool" where
  "is_timestamp (TimestampLine t1 t2 t3 t4 ns) = True"
| "is_timestamp l = False"

text \<open>What \<open>%s\<close> prints of a \<open>char\<close> array: the bytes before the first zero byte.\<close>

definition c_string :: "u8 list \<Rightarrow> u8 list" where
  "c_string cs = takeWhile (\<lambda>c. c \<noteq> 0) cs"

subsection \<open>\<open>print_bbo\<close>\<close>

text \<open>
  Lines 126 to 129 of \<open>print_bbo\<close>, the latency calculation
  (\<open>compute_latency\<close> in the specification):
  \<^verbatim>\<open>
  if (bbo->ts_t4 > bbo->ts_t1 && bbo->ts_t1 != 0) {
      uint32_t latency_cycles = bbo->ts_t4 - bbo->ts_t1;
      uint32_t latency_ns = latency_cycles * 4;
  \<close>
  The result is \<open>Some (latency_cycles, latency_ns)\<close> when the branch is taken and
  \<open>None\<close> when it is not. The clock period of 4 ns is a literal of the source.
\<close>

definition compute_latency :: "BboPacket \<Rightarrow> (u32 \<times> u32) option" where
  "compute_latency bbo =
     (if ts_t4 bbo > ts_t1 bbo \<and> ts_t1 bbo \<noteq> 0
      then let latency_cycles = ts_t4 bbo - ts_t1 bbo;
               latency_ns = latency_cycles * 4
           in Some (latency_cycles, latency_ns)
      else None)"

text \<open>
  \<open>void print_bbo(const BboPacket* bbo, int index)\<close>: the lines printed, in order.
  The local \<open>char symbol[9] = {0}\<close> receives the eight symbol bytes by \<open>memcpy\<close>
  and keeps its ninth byte zero.
\<close>

definition print_bbo :: "BboPacket \<Rightarrow> int \<Rightarrow> out_line list" where
  "print_bbo bbo index =
     [BboLine index (c_string (take 8 (symbol bbo) @ [0]))
        (bid_price bbo) (bid_size bbo) (ask_price bbo) (ask_size bbo) (spread bbo)]
     @ (case compute_latency bbo of
          Some (latency_cycles, latency_ns) \<Rightarrow>
            [TimestampLine (ts_t1 bbo) (ts_t2 bbo) (ts_t3 bbo) (ts_t4 bbo) latency_ns]
        | None \<Rightarrow> [])
     @ (if padding bbo \<noteq> 0xDEADBEEF then [PaddingWarning (padding bbo)] else [])"

subsection \<open>\<open>print_bbo\<close>, statement by statement\<close>

text \<open>
  \<open>print_bbo\<close> receives a pointer to the caller's struct. To state what it does to
  that struct, its body is also modelled as a sequence of steps on the memory it can
  reach: the bytes of the struct \<open>bbo\<close> points to, its local array \<open>symbol\<close>, and
  the lines printed so far. A member access \<open>bbo->m\<close> is the member \<open>m\<close> of
  \<open>decode_fields\<close> of the struct's bytes.
\<close>

record print_frame =
  pkt :: "u8 list"
  symbol_local :: "u8 list"
  printed :: "out_line list"

text \<open>\<open>char symbol[9] = {0}; memcpy(symbol, bbo->symbol, 8);\<close>\<close>

definition copy_symbol :: "print_frame \<Rightarrow> print_frame" where
  "copy_symbol f = f\<lparr>symbol_local := take 8 (symbol (decode_fields (pkt f))) @ [0]\<rparr>"

text \<open>The first \<open>printf\<close>, lines 118 to 123.\<close>

definition print_fields :: "int \<Rightarrow> print_frame \<Rightarrow> print_frame" where
  "print_fields index f =
     (let bbo = decode_fields (pkt f)
      in f\<lparr>printed := printed f @
            [BboLine index (c_string (symbol_local f))
               (bid_price bbo) (bid_size bbo) (ask_price bbo) (ask_size bbo) (spread bbo)]\<rparr>)"

text \<open>The latency calculation and its \<open>printf\<close>, lines 126 to 132.\<close>

definition print_latency :: "print_frame \<Rightarrow> print_frame" where
  "print_latency f =
     (let bbo = decode_fields (pkt f)
      in case compute_latency bbo of
           Some (latency_cycles, latency_ns) \<Rightarrow>
             f\<lparr>printed := printed f @
               [TimestampLine (ts_t1 bbo) (ts_t2 bbo) (ts_t3 bbo) (ts_t4 bbo) latency_ns]\<rparr>
         | None \<Rightarrow> f)"

text \<open>The padding check, lines 135 to 137.\<close>

definition verify_padding :: "print_frame \<Rightarrow> print_frame" where
  "verify_padding f =
     (let bbo = decode_fields (pkt f)
      in if padding bbo \<noteq> 0xDEADBEEF
         then f\<lparr>printed := printed f @ [PaddingWarning (padding bbo)]\<rparr>
         else f)"

text \<open>The body of \<open>print_bbo\<close>: the four steps in the order of the source.\<close>

definition print_bbo_run :: "print_frame \<Rightarrow> int \<Rightarrow> print_frame" where
  "print_bbo_run f index = verify_padding (print_latency (print_fields index (copy_symbol f)))"

subsection \<open>\<open>hexdump\<close>\<close>

text \<open>
  The character column of \<open>hexdump\<close>:
  \<open>char c = data[i + j]; printf("%c", (c >= 32 && c < 127) ? c : '.')\<close>.
  \<open>char\<close> is signed under the documented compiler, so the byte is read by \<open>sint\<close>;
  \<open>0x2E\<close> is the full stop.
\<close>

definition hexdump_char :: "u8 \<Rightarrow> u8" where
  "hexdump_char c = (if 32 \<le> sint c \<and> sint c < 127 then c else 0x2E)"

text \<open>One printed row: the offset, the bytes of the hex column, the character column.\<close>

datatype hex_line = HexLine nat "u8 list" "u8 list"

function hexdump_from :: "u8 list \<Rightarrow> nat \<Rightarrow> hex_line list" where
  "hexdump_from data i =
     (if i < length data
      then HexLine i (take 16 (drop i data)) (map hexdump_char (take 16 (drop i data)))
             # hexdump_from data (i + 16)
      else [])"
  by pat_completeness auto
termination
  by (relation "measure (\<lambda>(data, i). length data - i)") auto

definition hexdump :: "u8 list \<Rightarrow> hex_line list" where
  "hexdump data = hexdump_from data 0"

subsection \<open>The receive loop of \<open>main\<close>\<close>

text \<open>
  The state that the normal-mode loop of \<open>main\<close> carries from one iteration to the
  next: the 48 bytes of the local \<open>BboPacket bbo\<close> and the counter \<open>received\<close>
  (an \<open>int\<close> that stays below \<open>count\<close>, so it never overflows).
\<close>

record main_state =
  bbo :: "u8 list"
  received :: int

text \<open>
  \<open>ReadFile(hDevice, &bbo, BBO_PACKET_SIZE, &bytesRead, NULL)\<close> stores the bytes it
  delivers at the start of \<open>bbo\<close> and leaves the rest of the struct as it was. It
  never delivers more than the \<open>BBO_PACKET_SIZE\<close> bytes asked for; the \<open>take\<close> keeps
  the model total on longer lists.
\<close>

definition ReadFile_store :: "u8 list \<Rightarrow> u8 list \<Rightarrow> u8 list" where
  "ReadFile_store mem buf = take BBO_PACKET_SIZE buf @ drop (length buf) mem"

text \<open>
  The bytes \<open>buf\<close> that a successful \<open>ReadFile\<close> delivered
  (\<open>bytesRead = length buf\<close>), stored in the struct and handed to lines 258 to 264:
  \<^verbatim>\<open>
  if (bytesRead != BBO_PACKET_SIZE) { printf("WARNING: Partial read ..."); continue; }
  received++;
  print_bbo(&bbo, received);
  \<close>
  This is \<open>decode\<close> of the specification: the size check, then the codec, the
  latency calculation and the padding check on the struct. The result is the lines
  printed and the state afterwards; \<open>print_bbo\<close> runs on the struct of \<open>main\<close>,
  which is afterwards whatever \<open>print_bbo\<close> left there.
\<close>

definition main_decode :: "main_state \<Rightarrow> u8 list \<Rightarrow> out_line list \<times> main_state" where
  "main_decode s buf =
     (let s1 = s\<lparr>bbo := ReadFile_store (bbo s) buf\<rparr>;
          bytesRead = length buf
      in if bytesRead \<noteq> BBO_PACKET_SIZE
         then ([PartialReadLine bytesRead BBO_PACKET_SIZE], s1)
         else let s2 = s1\<lparr>received := received s1 + 1\<rparr>;
                  f = print_bbo_run \<lparr>pkt = bbo s2, symbol_local = [], printed = []\<rparr>
                        (received s2)
              in (printed f, s2\<lparr>bbo := pkt f\<rparr>))"

text \<open>
  One iteration of the loop in which \<open>ReadFile\<close> succeeded, lines 246 to 264. A read
  of no bytes is answered before the size check, by the transport's back-off:
  \<^verbatim>\<open>
  if (bytesRead == 0) { printf("No data available, waiting...\n"); Sleep(100); continue; }
  \<close>
  Every other read goes to the size check.
\<close>

definition main_loop_body :: "main_state \<Rightarrow> u8 list \<Rightarrow> out_line list \<times> main_state" where
  "main_loop_body s buf =
     (if length buf = 0 then ([NoDataLine], s\<lparr>bbo := ReadFile_store (bbo s) buf\<rparr>)
      else main_decode s buf)"


subsection \<open>The encoder\<close>

text \<open>
  Modelled from the spec: the encoder of a packet. The repository's source only reads
  packets (they are produced by the FPGA design), so writing the fields "back into 48
  bytes at the documented offsets" follows the offset table of the specification:
  symbol at 0, then the ten 32-bit fields at 8, 12, ..., 44, least significant byte first.
\<close>

definition store_u32 :: "u32 \<Rightarrow> u8 list" where
  "store_u32 w = [ucast w, ucast (drop_bit 8 w), ucast (drop_bit 16 w), ucast (drop_bit 24 w)]"

definition write_at :: "nat \<Rightarrow> u8 list \<Rightarrow> u8 list \<Rightarrow> u8 list" where
  "write_at off bs buf = take off buf @ bs @ drop (off + length bs) buf"

definition encode_fields :: "BboPacket \<Rightarrow> u8 list" where
  "encode_fields p =
     (write_at 44 (store_u32 (padding p))
     (write_at 40 (store_u32 (ts_t4 p))
     (write_at 36 (store_u32 (ts_t3 p))
     (write_at 32 (store_u32 (ts_t2 p))
     (write_at 28 (store_u32 (ts_t1 p))
     (write_at 24 (store_u32 (spread p))
     (write_at 20 (store_u32 (ask_size p))
     (write_at 16 (store_u32 (ask_price p))
     (write_at 12 (store_u32 (bid_size p))
     (write_at 8 (store_u32 (bid_price p))
     (write_at 0 (symbol p) (replicate 48 0))))))))))))"

subsection \<open>Sample inputs\<close>

text \<open>
  A well-formed packet: symbol \<open>AAPL\<close>, bid 1500000 @ 100, ask 1500100 @ 200,
  spread 100, timestamps 1000, 1010, 1050 and 1100, padding \<open>0xDEADBEEF\<close>.
\<close>

definition sample_buf :: "u8 list" where
  "sample_buf =
     [0x41, 0x41, 0x50, 0x4C, 0, 0, 0, 0,
      0x60, 0xE3, 0x16, 0x00,  0x64, 0, 0, 0,
      0xC4, 0xE3, 0x16, 0x00,  0xC8, 0, 0, 0,
      0x64, 0, 0, 0,
      0xE8, 0x03, 0, 0,  0xF2, 0x03, 0, 0,  0x1A, 0x04, 0, 0,  0x4C, 0x04, 0, 0,
      0xEF, 0xBE, 0xAD, 0xDE]"

definition sample_packet :: BboPacket where
  "sample_packet =
     \<lparr> symbol = [0x41, 0x41, 0x50, 0x4C, 0, 0, 0, 0],
       bid_price = 1500000, bid_size = 100, ask_price = 1500100, ask_size = 200,
       spread = 100, ts_t1 = 1000, ts_t2 = 1010, ts_t3 = 1050, ts_t4 = 1100,
       padding = 0xDEADBEEF \<rparr>"

text \<open>
  The counter wrapped between T1 and T4: T1 is 16 cycles before the wrap, T4 is 16 cycles
  after it, so 32 cycles elapsed and T4 is the smaller raw value.
\<close>

definition wrap_packet :: BboPacket where
  "wrap_packet =
     sample_packet\<lparr> ts_t1 := 0xFFFFFFF0, ts_t2 := 0xFFFFFFF8, ts_t3 := 0x8, ts_t4 := 0x10 \<rparr>"

text \<open>A latency of \<open>2 ^ 30\<close> cycles, whose product with 4 does not fit 32 bits.\<close>

definition overflow_packet :: BboPacket where
  "overflow_packet =
     sample_packet\<lparr> ts_t1 := 1, ts_t2 := 2, ts_t3 := 3, ts_t4 := 0x40000001 \<rparr>"

text \<open>A latency of \<open>2 ^ 30 + 1\<close> cycles: T1 is 1000, T4 is \<open>2 ^ 30 + 1001\<close>.\<close>

definition long_latency_packet :: BboPacket where
  "long_latency_packet =
     sample_packet\<lparr> ts_t1 := 1000, ts_t2 := 1010, ts_t3 := 1050, ts_t4 := 0x400003E9 \<rparr>"

text \<open>A symbol whose first two bytes, \<open>0x01\<close> and \<open>0x80\<close>, are not printable.\<close>

definition bad_symbol_packet :: BboPacket where
  "bad_symbol_packet = sample_packet\<lparr> symbol := [0x01, 0x80, 0x41, 0, 0, 0, 0, 0] \<rparr>"

text \<open>The sample packet with its four padding bytes zero.\<close>

definition bad_padding_buf :: "u8 list" where
  "bad_padding_buf = take 44 sample_buf @ [0, 0, 0, 0]"

definition init_state :: main_state where
  "init_state = \<lparr> bbo = replicate 48 0, received = 0 \<rparr>"


section \<open>Facts about the layout\<close>

lemma member_offset_simps:
  "member_offset 0 = 0" "member_offset 1 = 8" "member_offset (Suc 0) = 8"
  "member_offset 2 = 12" "member_offset 3 = 16" "member_offset 4 = 20"
  "member_offset 5 = 24" "member_offset 6 = 28" "member_offset 7 = 32"
  "member_offset 8 = 36" "member_offset 9 = 40" "member_offset 10 = 44"
  by (simp_all add: member_offset_def member_sizes_def)

lemma sizeof_BboPacket: "sum_list member_sizes = BBO_PACKET_SIZE"
  by (simp add: member_sizes_def BBO_PACKET_SIZE_def)

lemma unat_u8_less: "unat (b :: u8) < 256"
  using unsigned_less [of b, where ?'a = nat] by simp

lemma le32_value_less: "le32_value b0 b1 b2 b3 < 2 ^ 32"
  using unat_u8_less [of b0] unat_u8_less [of b1] unat_u8_less [of b2] unat_u8_less [of b3]
  by (simp add: le32_value_def)

lemma word_rcat4_of_int:
  "(word_rcat [b3, b2, b1, b0 :: u8] :: u32) =
     word_of_int (uint b0 + 256 * (uint b1 + 256 * (uint b2 + 256 * uint b3)))"
  by (simp add: word_rcat_def)

lemma word_rcat4_of_nat:
  "(word_rcat [b3, b2, b1, b0 :: u8] :: u32) = of_nat (le32_value b0 b1 b2 b3)"
proof -
  have "uint b0 + 256 * (uint b1 + 256 * (uint b2 + 256 * uint b3))
          = int (le32_value b0 b1 b2 b3)"
    by (simp add: le32_value_def)
  then show ?thesis
    by (simp only: word_rcat4_of_int of_int_of_nat_eq)
qed

lemma unat_word_rcat4:
  "unat (word_rcat [b3, b2, b1, b0 :: u8] :: u32) = le32_value b0 b1 b2 b3"
  using le32_value_less [of b0 b1 b2 b3]
  by (simp add: word_rcat4_of_nat unat_of_nat)

lemma member_bytes4:
  "off + 4 \<le> length mem \<Longrightarrow>
   member_bytes mem off 4 = [mem ! off, mem ! (off + 1), mem ! (off + 2), mem ! (off + 3)]"
  unfolding member_bytes_def
  by (rule nth_equalityI) (auto simp: nth_Cons' less_Suc_eq numeral_eq_Suc)

lemma unat_load_u32:
  "off + 4 \<le> length mem \<Longrightarrow>
   unat (load_u32 mem off)
     = le32_value (mem ! off) (mem ! (off + 1)) (mem ! (off + 2)) (mem ! (off + 3))"
  by (simp add: load_u32_def member_bytes4 unat_word_rcat4)

lemma member_bytes_append:
  "off + n \<le> length buf \<Longrightarrow> member_bytes (buf @ rest) off n = member_bytes buf off n"
  by (simp add: member_bytes_def)

lemma decode_fields_append:
  "length buf = 48 \<Longrightarrow> decode_fields (buf @ rest) = decode_fields buf"
  by (simp add: decode_fields_def load_u32_def member_bytes_append member_offset_def
      member_sizes_def)

text \<open>The struct's members are the little-endian words at the documented offsets.\<close>

lemma load_u32_le32: "off + 4 \<le> length mem \<Longrightarrow> load_u32 mem off = le32 mem off"
  by (simp add: load_u32_def member_bytes4 word_rcat4_of_nat le32_def)

lemma decode_fields_le32:
  "length buf = 48 \<Longrightarrow>
   decode_fields buf =
     \<lparr> symbol = take 8 buf,
       bid_price = le32 buf 8, bid_size = le32 buf 12,
       ask_price = le32 buf 16, ask_size = le32 buf 20, spread = le32 buf 24,
       ts_t1 = le32 buf 28, ts_t2 = le32 buf 32, ts_t3 = le32 buf 36, ts_t4 = le32 buf 40,
       padding = le32 buf 44 \<rparr>"
  by (simp add: decode_fields_def member_offset_simps load_u32_le32 member_bytes_def)

section \<open>Facts about the printed lines\<close>

text \<open>The only warning \<open>print_bbo\<close> can print is the one about the padding.\<close>

lemma warnings_print_bbo:
  "filter is_warning (print_bbo p i) =
     (if padding p \<noteq> 0xDEADBEEF then [PaddingWarning (padding p)] else [])"
  by (simp add: print_bbo_def split: option.split)

lemma c_string_terminated: "c_string (cs @ [0]) = takeWhile (\<lambda>c. c \<noteq> 0) cs"
  unfolding c_string_def by (induction cs) simp_all

lemma unat_times4: "unat ((c :: u32) * 4) = unat c * 4 mod 2 ^ 32"
  by (simp add: unat_word_ariths)

text \<open>
  No step of \<open>print_bbo\<close> writes the struct it is given, and the lines the steps
  print are those of \<open>print_bbo\<close> on the struct's members.
\<close>

lemma pkt_copy_symbol: "pkt (copy_symbol f) = pkt f"
  by (simp add: copy_symbol_def)

lemma pkt_print_fields: "pkt (print_fields i f) = pkt f"
  by (simp add: print_fields_def Let_def)

lemma pkt_print_latency: "pkt (print_latency f) = pkt f"
  by (simp add: print_latency_def Let_def split: option.split)

lemma pkt_verify_padding: "pkt (verify_padding f) = pkt f"
  by (simp add: verify_padding_def Let_def)

lemma pkt_print_bbo_run: "pkt (print_bbo_run f i) = pkt f"
  by (simp add: print_bbo_run_def pkt_verify_padding pkt_print_latency pkt_print_fields
      pkt_copy_symbol)

lemma printed_print_bbo_run:
  "printed (print_bbo_run f i) = printed f @ print_bbo (decode_fields (pkt f)) i"
  by (simp add: print_bbo_run_def verify_padding_def print_latency_def print_fields_def
      copy_symbol_def print_bbo_def Let_def split: option.split)

text \<open>The signed reading of a byte, and the bytes \<open>hexdump\<close> prints unchanged.\<close>

lemma sint_u8_shift: "sint (b :: u8) = (uint b + 128) mod 256 - 128"
  apply (simp only: sint_uint)
  apply (simp only: signed_take_bit_eq_take_bit_shift take_bit_eq_mod)
  apply simp
  done

lemma mod_shift_256:
  "0 \<le> k \<Longrightarrow> k < 256 \<Longrightarrow>
   (k + 128) mod 256 - 128 = (if k < 128 then k else k - (256::int))"
  by (auto simp: mod_pos_geq)

lemma sint_u8: "sint (b :: u8) = (if uint b < 128 then uint b else uint b - 256)"
proof -
  have "0 \<le> uint b" and "uint b < 256"
    using uint_bounded [of b] by simp_all
  then show ?thesis
    by (simp only: sint_u8_shift mod_shift_256)
qed

lemma printable_nat:
  "n < 256 \<Longrightarrow>
   (32 \<le> (if int n < 128 then int n else int n - 256) \<and>
    (if int n < 128 then int n else int n - 256) < 127) = (32 \<le> n \<and> n \<le> 126)"
  by (cases "n < 128") auto

lemma hexdump_char_range:
  "hexdump_char b = (if 0x20 \<le> unat b \<and> unat b \<le> 0x7E then b else 0x2E)"
proof -
  define n where "n = unat b"
  have nb: "n < 256"
    unfolding n_def by (rule unat_u8_less)
  have u: "uint b = int n"
    unfolding n_def by (rule uint_nat)
  have "(32 \<le> sint b \<and> sint b < 127) = (32 \<le> n \<and> n \<le> 126)"
    unfolding sint_u8 u using nb by (rule printable_nat)
  then have "hexdump_char b = (if 32 \<le> n \<and> n \<le> 126 then b else 0x2E)"
    unfolding hexdump_char_def by (simp only:)
  then show ?thesis
    unfolding n_def .
qed

section \<open>Facts about the encoder\<close>

lemma split_le32:
  fixes n :: nat
  assumes "n < 2 ^ 32"
  shows "n mod 256 + 256 * (n div 256 mod 256) + 65536 * (n div 65536 mod 256)
    + 16777216 * (n div 16777216) = n"
proof -
  define q1 where "q1 = n div 256"
  define q2 where "q2 = q1 div 256"
  define q3 where "q3 = q2 div 256"
  define r0 where "r0 = n mod 256"
  define r1 where "r1 = q1 mod 256"
  define r2 where "r2 = q2 mod 256"
  have e2: "n div 65536 = q2"
    unfolding q2_def q1_def by (simp add: div_mult2_eq [symmetric])
  have e3: "n div 16777216 = q3"
    unfolding q3_def q2_def q1_def by (simp add: div_mult2_eq [symmetric])
  have a: "n = r0 + 256 * q1"
    unfolding r0_def q1_def by (rule mod_mult_div_eq [symmetric])
  have b: "q1 = r1 + 256 * q2"
    unfolding r1_def q2_def by (rule mod_mult_div_eq [symmetric])
  have c: "q2 = r2 + 256 * q3"
    unfolding r2_def q3_def by (rule mod_mult_div_eq [symmetric])
  have "r0 + 256 * r1 + 65536 * r2 + 16777216 * q3 = n"
    using a b c by linarith
  then show ?thesis
    unfolding r0_def r1_def r2_def e2 [symmetric] e3 [symmetric] q1_def .
qed

lemma top_byte_less:
  fixes n :: nat
  assumes "n < 2 ^ 32"
  shows "n div 16777216 < 256"
  using assms by (simp add: div_less_iff_less_mult)


lemma unat_byte0: "unat (ucast (w :: u32) :: u8) = unat w mod 256"
  by (simp add: unsigned_ucast_eq take_bit_eq_mod)

lemma unat_byte_shift:
  "unat (ucast (drop_bit k (w :: u32)) :: u8) = unat w div 2 ^ k mod 256"
proof -
  have "unat (ucast (drop_bit k w) :: u8) = unat (drop_bit k w) mod 256"
    by (rule unat_byte0)
  also have "unat (drop_bit k w) = unat w div 2 ^ k"
    by (simp only: unat_drop_bit_eq) (rule drop_bit_eq_div)
  finally show ?thesis .
qed

lemma unat_byte_shifts:
  "unat (ucast (drop_bit 8 (w :: u32)) :: u8) = unat w div 256 mod 256"
  "unat (ucast (drop_bit 16 (w :: u32)) :: u8) = unat w div 65536 mod 256"
  "unat (ucast (drop_bit 24 (w :: u32)) :: u8) = unat w div 16777216 mod 256"
  using unat_byte_shift [of 8 w] unat_byte_shift [of 16 w] unat_byte_shift [of 24 w]
  by simp_all

lemma le32_value_store_u32:
  "le32_value (ucast w) (ucast (drop_bit 8 w)) (ucast (drop_bit 16 w)) (ucast (drop_bit 24 w))
     = unat (w :: u32)"
proof -
  have lt: "unat w < 2 ^ 32"
    using unsigned_less [of w, where ?'a = nat] by simp
  have top: "unat w div 16777216 mod 256 = unat w div 16777216"
    using top_byte_less [OF lt] by simp
  have "le32_value (ucast w) (ucast (drop_bit 8 w)) (ucast (drop_bit 16 w))
          (ucast (drop_bit 24 w))
      = unat w mod 256 + 256 * (unat w div 256 mod 256) + 65536 * (unat w div 65536 mod 256)
          + 16777216 * (unat w div 16777216)"
    by (simp only: le32_value_def unat_byte_shifts top, simp only: unat_byte0)
  then show ?thesis
    by (simp only: split_le32 [OF lt])
qed

lemma load_store_u32:
  "length pre = off \<Longrightarrow> load_u32 (pre @ store_u32 w @ post) off = w"
proof -
  assume "length pre = off"
  then have "member_bytes (pre @ store_u32 w @ post) off 4 = store_u32 w"
    by (simp add: member_bytes_def store_u32_def)
  then have "unat (load_u32 (pre @ store_u32 w @ post) off) = unat w"
    by (simp add: load_u32_def store_u32_def unat_word_rcat4 le32_value_store_u32)
  then show ?thesis
    by (simp only: word_unat_eq_iff)
qed


lemma length_store_u32: "length (store_u32 w) = 4"
  by (simp add: store_u32_def)

lemma write_at_zeros:
  "length pre = off \<Longrightarrow> length bs = k \<Longrightarrow>
   write_at off bs (pre @ replicate (k + m) 0) = (pre @ bs) @ replicate m 0"
  by (simp add: write_at_def)

lemma encode_fields_concat:
  assumes "length (symbol p) = 8"
  shows "encode_fields p =
    symbol p @ store_u32 (bid_price p) @ store_u32 (bid_size p) @ store_u32 (ask_price p)
      @ store_u32 (ask_size p) @ store_u32 (spread p) @ store_u32 (ts_t1 p)
      @ store_u32 (ts_t2 p) @ store_u32 (ts_t3 p) @ store_u32 (ts_t4 p)
      @ store_u32 (padding p)"
proof -
  let ?s = "symbol p"
  let ?b1 = "store_u32 (bid_price p)"
  let ?b2 = "store_u32 (bid_size p)"
  let ?b3 = "store_u32 (ask_price p)"
  let ?b4 = "store_u32 (ask_size p)"
  let ?b5 = "store_u32 (spread p)"
  let ?b6 = "store_u32 (ts_t1 p)"
  let ?b7 = "store_u32 (ts_t2 p)"
  let ?b8 = "store_u32 (ts_t3 p)"
  let ?b9 = "store_u32 (ts_t4 p)"
  let ?b10 = "store_u32 (padding p)"
  note len = assms length_store_u32
  have e0: "write_at 0 ?s (replicate 48 0) = ?s @ replicate 40 0"
    using write_at_zeros [of "[]" 0 ?s 8 40] by (simp add: len)
  have e1: "write_at 8 ?b1 (?s @ replicate 40 0)
      = ?s @ ?b1 @ replicate 36 0"
    using write_at_zeros [of "?s" 8 ?b1 4 36] by (simp add: len)
  have e2: "write_at 12 ?b2 (?s @ ?b1 @ replicate 36 0)
      = ?s @ ?b1 @ ?b2 @ replicate 32 0"
    using write_at_zeros [of "?s @ ?b1" 12 ?b2 4 32] by (simp add: len)
  have e3: "write_at 16 ?b3 (?s @ ?b1 @ ?b2 @ replicate 32 0)
      = ?s @ ?b1 @ ?b2 @ ?b3 @ replicate 28 0"
    using write_at_zeros [of "?s @ ?b1 @ ?b2" 16 ?b3 4 28] by (simp add: len)
  have e4: "write_at 20 ?b4 (?s @ ?b1 @ ?b2 @ ?b3 @ replicate 28 0)
      = ?s @ ?b1 @ ?b2 @ ?b3 @ ?b4 @ replicate 24 0"
    using write_at_zeros [of "?s @ ?b1 @ ?b2 @ ?b3" 20 ?b4 4 24] by (simp add: len)
  have e5: "write_at 24 ?b5 (?s @ ?b1 @ ?b2 @ ?b3 @ ?b4 @ replicate 24 0)
      = ?s @ ?b1 @ ?b2 @ ?b3 @ ?b4 @ ?b5 @ replicate 20 0"
    using write_at_zeros [of "?s @ ?b1 @ ?b2 @ ?b3 @ ?b4" 24 ?b5 4 20] by (simp add: len)
  have e6: "write_at 28 ?b6 (?s @ ?b1 @ ?b2 @ ?b3 @ ?b4 @ ?b5 @ replicate 20 0)
      = ?s @ ?b1 @ ?b2 @ ?b3 @ ?b4 @ ?b5 @ ?b6 @ replicate 16 0"
    using write_at_zeros [of "?s @ ?b1 @ ?b2 @ ?b3 @ ?b4 @ ?b5" 28 ?b6 4 16] by (simp add: len)
  have e7: "write_at 32 ?b7 (?s @ ?b1 @ ?b2 @ ?b3 @ ?b4 @ ?b5 @ ?b6 @ replicate 16 0)
      = ?s @ ?b1 @ ?b2 @ ?b3 @ ?b4 @ ?b5 @ ?b6 @ ?b7 @ replicate 12 0"
    using write_at_zeros [of "?s @ ?b1 @ ?b2 @ ?b3 @ ?b4 @ ?b5 @ ?b6" 32 ?b7 4 12] by (simp add: len)
  have e8: "write_at 36 ?b8 (?s @ ?b1 @ ?b2 @ ?b3 @ ?b4 @ ?b5 @ ?b6 @ ?b7 @ replicate 12 0)
      = ?s @ ?b1 @ ?b2 @ ?b3 @ ?b4 @ ?b5 @ ?b6 @ ?b7 @ ?b8 @ replicate 8 0"
    using write_at_zeros [of "?s @ ?b1 @ ?b2 @ ?b3 @ ?b4 @ ?b5 @ ?b6 @ ?b7" 36 ?b8 4 8] by (simp add: len)
  have e9: "write_at 40 ?b9 (?s @ ?b1 @ ?b2 @ ?b3 @ ?b4 @ ?b5 @ ?b6 @ ?b7 @ ?b8 @ replicate 8 0)
      = ?s @ ?b1 @ ?b2 @ ?b3 @ ?b4 @ ?b5 @ ?b6 @ ?b7 @ ?b8 @ ?b9 @ replicate 4 0"
    using write_at_zeros [of "?s @ ?b1 @ ?b2 @ ?b3 @ ?b4 @ ?b5 @ ?b6 @ ?b7 @ ?b8" 40 ?b9 4 4] by (simp add: len)
  have e10: "write_at 44 ?b10 (?s @ ?b1 @ ?b2 @ ?b3 @ ?b4 @ ?b5 @ ?b6 @ ?b7 @ ?b8 @ ?b9 @ replicate 4 0)
      = ?s @ ?b1 @ ?b2 @ ?b3 @ ?b4 @ ?b5 @ ?b6 @ ?b7 @ ?b8 @ ?b9 @ ?b10 @ replicate 0 0"
    using write_at_zeros [of "?s @ ?b1 @ ?b2 @ ?b3 @ ?b4 @ ?b5 @ ?b6 @ ?b7 @ ?b8 @ ?b9" 44 ?b10 4 0] by (simp add: len)
  show ?thesis
    by (simp only: encode_fields_def e0 e1 e2 e3 e4 e5 e6 e7 e8 e9 e10) simp
qed

lemma load_encode_fields:
  assumes "length (symbol p) = 8"
  shows
    "load_u32 (encode_fields p) 8 = bid_price p"
    "load_u32 (encode_fields p) 12 = bid_size p"
    "load_u32 (encode_fields p) 16 = ask_price p"
    "load_u32 (encode_fields p) 20 = ask_size p"
    "load_u32 (encode_fields p) 24 = spread p"
    "load_u32 (encode_fields p) 28 = ts_t1 p"
    "load_u32 (encode_fields p) 32 = ts_t2 p"
    "load_u32 (encode_fields p) 36 = ts_t3 p"
    "load_u32 (encode_fields p) 40 = ts_t4 p"
    "load_u32 (encode_fields p) 44 = padding p"
proof -
  let ?s = "symbol p"
  let ?b1 = "store_u32 (bid_price p)"
  let ?b2 = "store_u32 (bid_size p)"
  let ?b3 = "store_u32 (ask_price p)"
  let ?b4 = "store_u32 (ask_size p)"
  let ?b5 = "store_u32 (spread p)"
  let ?b6 = "store_u32 (ts_t1 p)"
  let ?b7 = "store_u32 (ts_t2 p)"
  let ?b8 = "store_u32 (ts_t3 p)"
  let ?b9 = "store_u32 (ts_t4 p)"
  let ?b10 = "store_u32 (padding p)"
  note len = assms length_store_u32
  show "load_u32 (encode_fields p) 8 = bid_price p"
    using load_store_u32 [of "?s" 8 "bid_price p" "?b2 @ ?b3 @ ?b4 @ ?b5 @ ?b6 @ ?b7 @ ?b8 @ ?b9 @ ?b10"]
    by (simp add: len encode_fields_concat)
  show "load_u32 (encode_fields p) 12 = bid_size p"
    using load_store_u32 [of "?s @ ?b1" 12 "bid_size p" "?b3 @ ?b4 @ ?b5 @ ?b6 @ ?b7 @ ?b8 @ ?b9 @ ?b10"]
    by (simp add: len encode_fields_concat)
  show "load_u32 (encode_fields p) 16 = ask_price p"
    using load_store_u32 [of "?s @ ?b1 @ ?b2" 16 "ask_price p" "?b4 @ ?b5 @ ?b6 @ ?b7 @ ?b8 @ ?b9 @ ?b10"]
    by (simp add: len encode_fields_concat)
  show "load_u32 (encode_fields p) 20 = ask_size p"
    using load_store_u32 [of "?s @ ?b1 @ ?b2 @ ?b3" 20 "ask_size p" "?b5 @ ?b6 @ ?b7 @ ?b8 @ ?b9 @ ?b10"]
    by (simp add: len encode_fields_concat)
  show "load_u32 (encode_fields p) 24 = spread p"
    using load_store_u32 [of "?s @ ?b1 @ ?b2 @ ?b3 @ ?b4" 24 "spread p" "?b6 @ ?b7 @ ?b8 @ ?b9 @ ?b10"]
    by (simp add: len encode_fields_concat)
  show "load_u32 (encode_fields p) 28 = ts_t1 p"
    using load_store_u32 [of "?s @ ?b1 @ ?b2 @ ?b3 @ ?b4 @ ?b5" 28 "ts_t1 p" "?b7 @ ?b8 @ ?b9 @ ?b10"]
    by (simp add: len encode_fields_concat)
  show "load_u32 (encode_fields p) 32 = ts_t2 p"
    using load_store_u32 [of "?s @ ?b1 @ ?b2 @ ?b3 @ ?b4 @ ?b5 @ ?b6" 32 "ts_t2 p" "?b8 @ ?b9 @ ?b10"]
    by (simp add: len encode_fields_concat)
  show "load_u32 (encode_fields p) 36 = ts_t3 p"
    using load_store_u32 [of "?s @ ?b1 @ ?b2 @ ?b3 @ ?b4 @ ?b5 @ ?b6 @ ?b7" 36 "ts_t3 p" "?b9 @ ?b10"]
    by (simp add: len encode_fields_concat)
  show "load_u32 (encode_fields p) 40 = ts_t4 p"
    using load_store_u32 [of "?s @ ?b1 @ ?b2 @ ?b3 @ ?b4 @ ?b5 @ ?b6 @ ?b7 @ ?b8" 40 "ts_t4 p" "?b10"]
    by (simp add: len encode_fields_concat)
  show "load_u32 (encode_fields p) 44 = padding p"
    using load_store_u32 [of "?s @ ?b1 @ ?b2 @ ?b3 @ ?b4 @ ?b5 @ ?b6 @ ?b7 @ ?b8 @ ?b9" 44 "padding p" "[]"]
    by (simp add: len encode_fields_concat)
qed

lemma symbol_encode_fields:
  "length (symbol p) = 8 \<Longrightarrow> member_bytes (encode_fields p) 0 8 = symbol p"
  by (simp add: encode_fields_concat member_bytes_def)

lemma length_encode_fields: "length (symbol p) = 8 \<Longrightarrow> length (encode_fields p) = 48"
  by (simp add: encode_fields_concat length_store_u32)

section \<open>Facts about the loop body\<close>


text \<open>The two outcomes of the size check, and the loop around it.\<close>

lemma main_decode_partial:
  "length buf \<noteq> 48 \<Longrightarrow>
   main_decode s buf =
     ([PartialReadLine (length buf) 48], s\<lparr>bbo := ReadFile_store (bbo s) buf\<rparr>)"
  by (simp add: main_decode_def BBO_PACKET_SIZE_def Let_def)

lemma main_decode_packet:
  "length buf = 48 \<Longrightarrow>
   main_decode s buf =
     (print_bbo (decode_fields buf) (received s + 1),
      s\<lparr>bbo := buf @ drop 48 (bbo s), received := received s + 1\<rparr>)"
  by (simp add: main_decode_def ReadFile_store_def BBO_PACKET_SIZE_def Let_def
      pkt_print_bbo_run printed_print_bbo_run decode_fields_append)


lemma main_loop_body_nonempty: "length buf \<noteq> 0 \<Longrightarrow> main_loop_body s buf = main_decode s buf"
  by (simp add: main_loop_body_def)

section \<open>The claims\<close>

text \<open>
  C1. Field codec: for every 48-byte buffer, the symbol is the raw bytes at offsets 0 to 8
  and \<open>bid_price\<close>, \<open>bid_size\<close>, \<open>ask_price\<close>, \<open>ask_size\<close>, \<open>spread\<close>, \<open>ts_t1\<close>
  (\<open>ts_parse\<close>), \<open>ts_t2\<close> (\<open>ts_fifo_write\<close>), \<open>ts_t3\<close> (\<open>ts_fifo_read\<close>), \<open>ts_t4\<close>
  (\<open>ts_tx_start\<close>) and \<open>padding\<close> are the little-endian unsigned values of the bytes at
  offsets 8, 12, 16, 20, 24, 28, 32, 36, 40 and 44. The codec is a total function of the
  bytes: it rejects nothing and rescales nothing.
\<close>

theorem decode_fields_layout:
  assumes "length buf = 48"
  shows "symbol (decode_fields buf) = take 8 buf \<and>
    unat (bid_price (decode_fields buf)) = le32_value (buf ! 8) (buf ! 9) (buf ! 10) (buf ! 11) \<and>
    unat (bid_size (decode_fields buf)) = le32_value (buf ! 12) (buf ! 13) (buf ! 14) (buf ! 15) \<and>
    unat (ask_price (decode_fields buf)) = le32_value (buf ! 16) (buf ! 17) (buf ! 18) (buf ! 19) \<and>
    unat (ask_size (decode_fields buf)) = le32_value (buf ! 20) (buf ! 21) (buf ! 22) (buf ! 23) \<and>
    unat (spread (decode_fields buf)) = le32_value (buf ! 24) (buf ! 25) (buf ! 26) (buf ! 27) \<and>
    unat (ts_t1 (decode_fields buf)) = le32_value (buf ! 28) (buf ! 29) (buf ! 30) (buf ! 31) \<and>
    unat (ts_t2 (decode_fields buf)) = le32_value (buf ! 32) (buf ! 33) (buf ! 34) (buf ! 35) \<and>
    unat (ts_t3 (decode_fields buf)) = le32_value (buf ! 36) (buf ! 37) (buf ! 38) (buf ! 39) \<and>
    unat (ts_t4 (decode_fields buf)) = le32_value (buf ! 40) (buf ! 41) (buf ! 42) (buf ! 43) \<and>
    unat (padding (decode_fields buf)) = le32_value (buf ! 44) (buf ! 45) (buf ! 46) (buf ! 47)"
  using assms
  by (simp add: decode_fields_def member_offset_simps unat_load_u32 member_bytes_def)

theorem decode_fields_layout_witness:
  "length sample_buf = 48 \<and>
   symbol (decode_fields sample_buf) = [0x41, 0x41, 0x50, 0x4C, 0, 0, 0, 0] \<and>
   unat (bid_price (decode_fields sample_buf)) = 1500000 \<and>
   unat (ts_t4 (decode_fields sample_buf)) = 1100 \<and>
   unat (padding (decode_fields sample_buf)) = 3735928559"
proof -
  have len: "length sample_buf = 48"
    by (simp add: sample_buf_def)
  show ?thesis
    using len decode_fields_layout [OF len]
    by (simp add: sample_buf_def le32_value_def)
qed

text \<open>
  C2, as the claim states it, fails on the product: in \<open>long_latency_packet\<close> the
  conditions \<open>ts_t4 > ts_t1\<close> and \<open>ts_t1 \<noteq> 0\<close> hold and the cycles are
  \<open>2 ^ 30 + 1\<close>, but the nanoseconds reported are 4 and not the 4294967300 that
  cycles times 4 is.
\<close>

theorem latency_product_counterexample:
  "ts_t1 long_latency_packet < ts_t4 long_latency_packet \<and> ts_t1 long_latency_packet \<noteq> 0 \<and>
   compute_latency long_latency_packet = Some (0x40000001, 4) \<and>
   unat (0x40000001 :: u32) * 4 = 4294967300 \<and> unat (4 :: u32) = 4"
  by (simp add: long_latency_packet_def sample_packet_def compute_latency_def)

text \<open>
  C2, amended. The latency is reported exactly when \<open>ts_t4 > ts_t1\<close>
  (\<open>ts_tx_start > ts_parse\<close>) and \<open>ts_t1 \<noteq> 0\<close>; then the cycles are
  \<open>ts_t4 - ts_t1\<close>, a difference that does not wrap, and the nanoseconds are the
  cycles times the clock period 4 reduced modulo \<open>2 ^ 32\<close>, which is the product
  itself whenever the cycles are below \<open>2 ^ 30\<close>. When \<open>ts_t1 = 0\<close> or
  \<open>ts_t4 \<le> ts_t1\<close> no latency is computed and no latency line is printed.
  With \<open>ts_t1 = 1000\<close> and \<open>ts_t4 = 1100\<close> the result is 100 cycles and 400 ns.
\<close>

theorem compute_latency_contract:
  "(ts_t1 p < ts_t4 p \<and> ts_t1 p \<noteq> 0 \<longrightarrow>
      compute_latency p = Some (ts_t4 p - ts_t1 p, (ts_t4 p - ts_t1 p) * 4) \<and>
      unat (ts_t4 p - ts_t1 p) = unat (ts_t4 p) - unat (ts_t1 p) \<and>
      unat ((ts_t4 p - ts_t1 p) * 4) = unat (ts_t4 p - ts_t1 p) * 4 mod 2 ^ 32 \<and>
      (unat (ts_t4 p - ts_t1 p) < 2 ^ 30 \<longrightarrow>
         unat ((ts_t4 p - ts_t1 p) * 4) = unat (ts_t4 p - ts_t1 p) * 4) \<and>
      filter is_timestamp (print_bbo p i) =
        [TimestampLine (ts_t1 p) (ts_t2 p) (ts_t3 p) (ts_t4 p) ((ts_t4 p - ts_t1 p) * 4)]) \<and>
   (ts_t1 p = 0 \<or> ts_t4 p \<le> ts_t1 p \<longrightarrow>
      compute_latency p = None \<and> filter is_timestamp (print_bbo p i) = []) \<and>
   (ts_t1 p = 1000 \<and> ts_t4 p = 1100 \<longrightarrow> compute_latency p = Some (100, 400))"
proof (intro conjI impI)
  assume a: "ts_t1 p < ts_t4 p \<and> ts_t1 p \<noteq> 0"
  then show "compute_latency p = Some (ts_t4 p - ts_t1 p, (ts_t4 p - ts_t1 p) * 4)"
    by (simp add: compute_latency_def)
  from a have "ts_t1 p \<le> ts_t4 p" by (simp add: less_imp_le)
  then show "unat (ts_t4 p - ts_t1 p) = unat (ts_t4 p) - unat (ts_t1 p)"
    by (rule unat_sub)
  show m: "unat ((ts_t4 p - ts_t1 p) * 4) = unat (ts_t4 p - ts_t1 p) * 4 mod 2 ^ 32"
    by (rule unat_times4)
  from a show "filter is_timestamp (print_bbo p i) =
        [TimestampLine (ts_t1 p) (ts_t2 p) (ts_t3 p) (ts_t4 p) ((ts_t4 p - ts_t1 p) * 4)]"
    by (simp add: print_bbo_def compute_latency_def)
  assume "unat (ts_t4 p - ts_t1 p) < 2 ^ 30"
  then have "unat (ts_t4 p - ts_t1 p) * 4 < 2 ^ 32"
    by simp
  with m show "unat ((ts_t4 p - ts_t1 p) * 4) = unat (ts_t4 p - ts_t1 p) * 4"
    by (simp only: mod_less)
next
  assume b: "ts_t1 p = 0 \<or> ts_t4 p \<le> ts_t1 p"
  then show "compute_latency p = None"
    by (auto simp: compute_latency_def)
  from b show "filter is_timestamp (print_bbo p i) = []"
    by (auto simp: print_bbo_def compute_latency_def)
next
  assume "ts_t1 p = 1000 \<and> ts_t4 p = 1100"
  then show "compute_latency p = Some (100, 400)"
    by (simp add: compute_latency_def)
qed

theorem compute_latency_contract_witness:
  "ts_t1 sample_packet = 1000 \<and> ts_t4 sample_packet = 1100 \<and>
   ts_t1 sample_packet < ts_t4 sample_packet \<and> ts_t1 sample_packet \<noteq> 0 \<and>
   unat (ts_t4 sample_packet - ts_t1 sample_packet) < 2 ^ 30 \<and>
   compute_latency sample_packet = Some (100, 400) \<and>
   unat ((ts_t4 sample_packet - ts_t1 sample_packet) * 4) = 400 \<and>
   filter is_timestamp (print_bbo sample_packet 1) = [TimestampLine 1000 1010 1050 1100 400] \<and>
   ts_t4 wrap_packet \<le> ts_t1 wrap_packet \<and>
   compute_latency wrap_packet = None \<and>
   filter is_timestamp (print_bbo wrap_packet 1) = []"
  using compute_latency_contract [of sample_packet 1] compute_latency_contract [of wrap_packet 1]
  by (simp add: sample_packet_def wrap_packet_def)

text \<open>
  C3. Size mismatch: for every buffer whose length is not 48, the size check prints the
  partial-read warning with the expected 48 and the length received, and nothing else:
  no packet line, no latency line, and the packet is not counted. No member is read:
  the lines printed are the same for every buffer of that length. A 47-byte buffer
  gives "Partial read 47 bytes (expected 48)".
\<close>

theorem size_mismatch_reported:
  assumes "length buf \<noteq> 48"
  shows "main_decode s buf =
      ([PartialReadLine (length buf) 48], s\<lparr>bbo := ReadFile_store (bbo s) buf\<rparr>) \<and>
    received (snd (main_decode s buf)) = received s \<and>
    (\<forall>other. length other = length buf \<longrightarrow>
       fst (main_decode s other) = fst (main_decode s buf))"
  using assms by (simp add: main_decode_partial)

theorem size_mismatch_reported_witness:
  "length (take 47 sample_buf) \<noteq> 48 \<and>
   fst (main_decode init_state (take 47 sample_buf)) = [PartialReadLine 47 48] \<and>
   received (snd (main_decode init_state (take 47 sample_buf))) = 0 \<and>
   length (replicate 47 0 :: u8 list) = length (take 47 sample_buf) \<and>
   fst (main_decode init_state (replicate 47 0)) = [PartialReadLine 47 48]"
proof -
  have len: "length (take 47 sample_buf) = 47"
    by (simp add: sample_buf_def)
  then have ne: "length (take 47 sample_buf) \<noteq> 48"
    by simp
  show ?thesis
    using len size_mismatch_reported [OF ne, of init_state]
    by (simp add: init_state_def)
qed

text \<open>
  C4. The sentinel check is not fatal: for every 48-byte buffer the packet is counted
  and printed in full, whatever its padding (bytes 44 to 48, little-endian) is. The
  packet line carries the symbol bytes and the five market members read from their
  offsets, the latency line is printed or not by the timestamps at offsets 28 and 40
  alone, and every member of the struct afterwards is the little-endian word at its
  offset. When the padding differs from \<open>0xDEADBEEF\<close> the one warning printed is the
  padding warning, carrying the padding read; when it is \<open>0xDEADBEEF\<close> no warning
  is printed.
\<close>

theorem sentinel_nonfatal:
  assumes "length buf = 48"
  shows "fst (main_decode s buf) =
      [BboLine (received s + 1) (takeWhile (\<lambda>c. c \<noteq> 0) (take 8 buf))
         (le32 buf 8) (le32 buf 12) (le32 buf 16) (le32 buf 20) (le32 buf 24)]
      @ (if le32 buf 28 < le32 buf 40 \<and> le32 buf 28 \<noteq> 0
         then [TimestampLine (le32 buf 28) (le32 buf 32) (le32 buf 36) (le32 buf 40)
                 ((le32 buf 40 - le32 buf 28) * 4)]
         else [])
      @ (if le32 buf 44 \<noteq> 0xDEADBEEF then [PaddingWarning (le32 buf 44)] else []) \<and>
    decode_fields (bbo (snd (main_decode s buf))) =
      \<lparr> symbol = take 8 buf,
        bid_price = le32 buf 8, bid_size = le32 buf 12,
        ask_price = le32 buf 16, ask_size = le32 buf 20, spread = le32 buf 24,
        ts_t1 = le32 buf 28, ts_t2 = le32 buf 32, ts_t3 = le32 buf 36, ts_t4 = le32 buf 40,
        padding = le32 buf 44 \<rparr> \<and>
    received (snd (main_decode s buf)) = received s + 1 \<and>
    (le32 buf 44 \<noteq> 0xDEADBEEF \<longrightarrow>
       filter is_warning (fst (main_decode s buf)) = [PaddingWarning (le32 buf 44)]) \<and>
    (le32 buf 44 = 0xDEADBEEF \<longrightarrow> filter is_warning (fst (main_decode s buf)) = [])"
proof -
  let ?p = "decode_fields buf"
  have p: "?p =
      \<lparr> symbol = take 8 buf,
        bid_price = le32 buf 8, bid_size = le32 buf 12,
        ask_price = le32 buf 16, ask_size = le32 buf 20, spread = le32 buf 24,
        ts_t1 = le32 buf 28, ts_t2 = le32 buf 32, ts_t3 = le32 buf 36, ts_t4 = le32 buf 40,
        padding = le32 buf 44 \<rparr>"
    using assms by (rule decode_fields_le32)
  have out: "fst (main_decode s buf) = print_bbo ?p (received s + 1)"
    using assms by (simp add: main_decode_packet)
  have mem: "decode_fields (bbo (snd (main_decode s buf))) = ?p"
    using assms by (simp add: main_decode_packet decode_fields_append)
  have cnt: "received (snd (main_decode s buf)) = received s + 1"
    using assms by (simp add: main_decode_packet)
  have lines: "print_bbo ?p (received s + 1) =
      [BboLine (received s + 1) (takeWhile (\<lambda>c. c \<noteq> 0) (take 8 buf))
         (le32 buf 8) (le32 buf 12) (le32 buf 16) (le32 buf 20) (le32 buf 24)]
      @ (if le32 buf 28 < le32 buf 40 \<and> le32 buf 28 \<noteq> 0
         then [TimestampLine (le32 buf 28) (le32 buf 32) (le32 buf 36) (le32 buf 40)
                 ((le32 buf 40 - le32 buf 28) * 4)]
         else [])
      @ (if le32 buf 44 \<noteq> 0xDEADBEEF then [PaddingWarning (le32 buf 44)] else [])"
    unfolding p by (simp add: print_bbo_def compute_latency_def c_string_terminated)
  have warn: "filter is_warning (print_bbo ?p (received s + 1)) =
      (if le32 buf 44 \<noteq> 0xDEADBEEF then [PaddingWarning (le32 buf 44)] else [])"
    unfolding warnings_print_bbo by (simp add: p)
  show ?thesis
    unfolding out mem cnt warn lines [symmetric] using p by simp
qed

theorem sentinel_nonfatal_witness:
  "length bad_padding_buf = 48 \<and> le32 bad_padding_buf 44 = 0 \<and>
   fst (main_decode init_state bad_padding_buf) =
     [BboLine 1 [0x41, 0x41, 0x50, 0x4C] 1500000 100 1500100 200 100,
      TimestampLine 1000 1010 1050 1100 400, PaddingWarning 0] \<and>
   filter is_warning (fst (main_decode init_state bad_padding_buf)) = [PaddingWarning 0] \<and>
   received (snd (main_decode init_state bad_padding_buf)) = 1 \<and>
   length sample_buf = 48 \<and> le32 sample_buf 44 = 0xDEADBEEF \<and>
   filter is_warning (fst (main_decode init_state sample_buf)) = []"
proof -
  have len0: "length bad_padding_buf = 48"
    by (simp add: bad_padding_buf_def sample_buf_def)
  have len1: "length sample_buf = 48"
    by (simp add: sample_buf_def)
  have v0: "le32 bad_padding_buf 8 = 1500000" "le32 bad_padding_buf 12 = 100"
    "le32 bad_padding_buf 16 = 1500100" "le32 bad_padding_buf 20 = 200"
    "le32 bad_padding_buf 24 = 100" "le32 bad_padding_buf 28 = 1000"
    "le32 bad_padding_buf 32 = 1010" "le32 bad_padding_buf 36 = 1050"
    "le32 bad_padding_buf 40 = 1100" "le32 bad_padding_buf 44 = 0"
    "take 8 bad_padding_buf = [0x41, 0x41, 0x50, 0x4C, 0, 0, 0, 0]"
    by (simp_all add: bad_padding_buf_def sample_buf_def le32_def le32_value_def)
  have v1: "le32 sample_buf 44 = 0xDEADBEEF"
    by (simp add: sample_buf_def le32_def le32_value_def)
  show ?thesis
    using sentinel_nonfatal [OF len0, of init_state] sentinel_nonfatal [OF len1, of init_state]
    by (simp add: len0 len1 v0 v1 init_state_def)
qed

text \<open>
  C5, as the claim states it, fails: in \<open>wrap_packet\<close> the counter wrapped once
  between T1 and T4, so \<open>ts_t4\<close> is the smaller raw value and the difference modulo
  \<open>2 ^ 32\<close> is the 32 cycles that elapsed; the guard \<open>ts_t4 > ts_t1\<close> is false and
  no latency is computed or printed.
\<close>

theorem wraparound_counterexample:
  "ts_t4 wrap_packet < ts_t1 wrap_packet \<and>
   ts_t4 wrap_packet - ts_t1 wrap_packet = 32 \<and>
   compute_latency wrap_packet = None \<and>
   print_bbo wrap_packet 1 = [BboLine 1 [0x41, 0x41, 0x50, 0x4C] 1500000 100 1500100 200 100]"
  by (simp add: wrap_packet_def sample_packet_def compute_latency_def print_bbo_def c_string_def)

text \<open>
  C5, amended. For a packet whose \<open>ts_t4\<close> is numerically smaller than its
  \<open>ts_t1\<close>, as after a wraparound of the counter, the latency is unavailable: no
  difference is computed and no latency line is printed.
\<close>

theorem wraparound_unavailable:
  assumes "ts_t4 p < ts_t1 p"
  shows "compute_latency p = None \<and> filter is_timestamp (print_bbo p i) = []"
proof -
  from assms have "\<not> ts_t1 p < ts_t4 p"
    by (simp add: not_less less_imp_le)
  then show ?thesis
    by (simp add: compute_latency_def print_bbo_def)
qed

theorem wraparound_unavailable_witness:
  "ts_t4 wrap_packet < ts_t1 wrap_packet \<and>
   compute_latency wrap_packet = None \<and> filter is_timestamp (print_bbo wrap_packet 7) = []"
proof -
  have lt: "ts_t4 wrap_packet < ts_t1 wrap_packet"
    by (simp add: wrap_packet_def)
  show ?thesis
    using lt wraparound_unavailable [OF lt, of 7] by simp
qed

text \<open>
  C6, as the claim states it, fails: in \<open>overflow_packet\<close> the latency is
  \<open>2 ^ 30\<close> cycles, the product with 4 is \<open>2 ^ 32\<close>, and the latency line reports
  0 ns with no warning printed.
\<close>

theorem latency_overflow_counterexample:
  "compute_latency overflow_packet = Some (0x40000000, 0) \<and>
   unat (0x40000000 :: u32) * 4 = 2 ^ 32 \<and>
   print_bbo overflow_packet 1 =
     [BboLine 1 [0x41, 0x41, 0x50, 0x4C] 1500000 100 1500100 200 100,
      TimestampLine 1 2 3 0x40000001 0] \<and>
   filter is_warning (print_bbo overflow_packet 1) = []"
  by (simp add: overflow_packet_def sample_packet_def compute_latency_def print_bbo_def c_string_def)

text \<open>
  C6, amended. For every packet whose latency is computed and whose product of cycles
  and 4 does not fit 32 bits, the nanoseconds reported are that product modulo
  \<open>2 ^ 32\<close>, a smaller number; the packet's lines are printed as for any other
  packet and no warning is printed on account of the overflow: the warnings are the
  padding warning or none.
\<close>

theorem latency_overflow_wraps:
  assumes "compute_latency p = Some (c, n)" and "2 ^ 32 \<le> unat c * 4"
  shows "unat n = unat c * 4 mod 2 ^ 32 \<and> unat n < unat c * 4 \<and>
    filter is_timestamp (print_bbo p i) =
      [TimestampLine (ts_t1 p) (ts_t2 p) (ts_t3 p) (ts_t4 p) n] \<and>
    filter is_warning (print_bbo p i) =
      (if padding p \<noteq> 0xDEADBEEF then [PaddingWarning (padding p)] else [])"
proof -
  from assms(1) have n: "n = c * 4"
    by (auto simp: compute_latency_def Let_def split: if_splits)
  have m: "unat n = unat c * 4 mod 2 ^ 32"
    by (simp add: n unat_word_ariths)
  have "unat n < 2 ^ 32"
    using unsigned_less [of n, where ?'a = nat] by simp
  with assms(2) have lt: "unat n < unat c * 4"
    by simp
  have ts: "filter is_timestamp (print_bbo p i) =
      [TimestampLine (ts_t1 p) (ts_t2 p) (ts_t3 p) (ts_t4 p) n]"
    using assms(1) by (simp add: print_bbo_def)
  show ?thesis
    using m lt ts warnings_print_bbo [of p i] by simp
qed

theorem latency_overflow_wraps_witness:
  "compute_latency overflow_packet = Some (0x40000000, 0) \<and>
   (2::nat) ^ 32 \<le> unat (0x40000000 :: u32) * 4 \<and>
   filter is_timestamp (print_bbo overflow_packet 1) = [TimestampLine 1 2 3 0x40000001 0] \<and>
   filter is_warning (print_bbo overflow_packet 1) = []"
proof -
  have c: "compute_latency overflow_packet = Some (0x40000000, 0)"
    by (simp add: overflow_packet_def sample_packet_def compute_latency_def)
  have o: "(2::nat) ^ 32 \<le> unat (0x40000000 :: u32) * 4"
    by simp
  show ?thesis
    using c o latency_overflow_wraps [OF c o, of 1]
    by (simp add: overflow_packet_def sample_packet_def)
qed

text \<open>
  C7, as the claim states it, fails: \<open>bad_symbol_packet\<close> has the symbol bytes
  \<open>0x01\<close> and \<open>0x80\<close>, both nonzero and outside \<open>[0x20, 0x7E]\<close>;
  \<open>print_bbo\<close> prints them as they are and prints no warning.
\<close>

theorem symbol_warning_counterexample:
  "symbol bad_symbol_packet ! 0 = 0x01 \<and> symbol bad_symbol_packet ! 1 = 0x80 \<and>
   print_bbo bad_symbol_packet 1 =
     [BboLine 1 [0x01, 0x80, 0x41] 1500000 100 1500100 200 100,
      TimestampLine 1000 1010 1050 1100 400] \<and>
   filter is_warning (print_bbo bad_symbol_packet 1) = []"
  by (simp add: bad_symbol_packet_def sample_packet_def compute_latency_def print_bbo_def c_string_def)

text \<open>
  C7, amended. \<open>print_bbo\<close> does not check the symbol: the warnings it prints are
  the same whatever the symbol bytes are, and the symbol is printed as the bytes before
  its first zero byte, unchanged. The replacement of a byte outside \<open>[0x20, 0x7E]\<close>
  (a zero byte included) by a full stop is done by \<open>hexdump\<close> alone, in its character
  column, without a warning.
\<close>

theorem symbol_never_checked:
  "filter is_warning (print_bbo (p\<lparr>symbol := s\<rparr>) i) = filter is_warning (print_bbo p i) \<and>
   hd (print_bbo p i) =
     BboLine i (takeWhile (\<lambda>c. c \<noteq> 0) (take 8 (symbol p)))
       (bid_price p) (bid_size p) (ask_price p) (ask_size p) (spread p) \<and>
   hexdump_char b = (if 0x20 \<le> unat b \<and> unat b \<le> 0x7E then b else 0x2E)"
proof -
  have w: "filter is_warning (print_bbo (p\<lparr>symbol := s\<rparr>) i) = filter is_warning (print_bbo p i)"
    by (simp add: warnings_print_bbo)
  have c: "c_string (take 8 (symbol p) @ [0]) = takeWhile (\<lambda>c. c \<noteq> 0) (take 8 (symbol p))"
    by (rule c_string_terminated)
  have h: "hd (print_bbo p i) =
     BboLine i (takeWhile (\<lambda>c. c \<noteq> 0) (take 8 (symbol p)))
       (bid_price p) (bid_size p) (ask_price p) (ask_size p) (spread p)"
    by (simp add: print_bbo_def c)
  show ?thesis
    using w h hexdump_char_range [of b] by simp
qed

theorem symbol_never_checked_witness:
  "filter is_warning (print_bbo bad_symbol_packet 1) = filter is_warning (print_bbo sample_packet 1) \<and>
   hd (print_bbo bad_symbol_packet 1) = BboLine 1 [0x01, 0x80, 0x41] 1500000 100 1500100 200 100 \<and>
   hexdump_char 0x01 = 0x2E \<and> hexdump_char 0x41 = 0x41"
  using symbol_never_checked [where p = sample_packet and s = "[0x01, 0x80, 0x41, 0, 0, 0, 0, 0]"
      and i = 1 and b = "0x01"]
    symbol_never_checked [where p = bad_symbol_packet and s = "symbol bad_symbol_packet"
      and i = 1 and b = "0x41"]
  by (simp add: bad_symbol_packet_def sample_packet_def)

text \<open>
  C8. Round trip: for every packet (any eight symbol bytes, any values of the ten
  32-bit members), writing the members into 48 bytes at the documented offsets,
  least significant byte first, and decoding those bytes gives the packet back, member
  for member.
\<close>

theorem decode_encode_roundtrip:
  assumes "length (symbol p) = 8"
  shows "length (encode_fields p) = 48 \<and> decode_fields (encode_fields p) = p"
  using assms
  by (simp add: length_encode_fields decode_fields_def member_offset_simps
      load_encode_fields symbol_encode_fields)

theorem decode_encode_roundtrip_witness:
  "length (symbol sample_packet) = 8 \<and> encode_fields sample_packet = sample_buf \<and>
   decode_fields sample_buf = sample_packet"
proof -
  have len: "length (symbol sample_packet) = 8"
    by (simp add: sample_packet_def)
  have enc: "encode_fields sample_packet = sample_buf"
    by code_simp
  show ?thesis
    using len enc decode_encode_roundtrip [OF len] by simp
qed




text \<open>
  C10. The checks change nothing in the record. \<open>print_bbo\<close> leaves the struct it is
  given as it found it, and so does each of its steps: the copy of the symbol into the
  local array, the printing of the members, the latency calculation and the padding
  check, whether or not they print a latency line or a warning. So after a 48-byte
  buffer has been decoded the struct holds exactly the bytes received, its members are
  the codec's output for them, and the lines printed are those for the codec's output.
\<close>

theorem validation_preserves_record:
  assumes "length buf = 48"
  shows "pkt (print_bbo_run f i) = pkt f \<and>
    pkt (verify_padding f) = pkt f \<and> pkt (print_latency f) = pkt f \<and>
    pkt (print_fields i f) = pkt f \<and> pkt (copy_symbol f) = pkt f \<and>
    printed (print_bbo_run \<lparr>pkt = buf, symbol_local = [], printed = []\<rparr> i)
      = print_bbo (decode_fields buf) i \<and>
    take 48 (bbo (snd (main_decode s buf))) = buf \<and>
    decode_fields (bbo (snd (main_decode s buf))) = decode_fields buf \<and>
    fst (main_decode s buf) = print_bbo (decode_fields buf) (received s + 1)"
  using assms
  by (simp add: pkt_print_bbo_run pkt_verify_padding pkt_print_latency pkt_print_fields
      pkt_copy_symbol printed_print_bbo_run main_decode_packet decode_fields_append)

theorem validation_preserves_record_witness:
  "length bad_padding_buf = 48 \<and>
   pkt (print_bbo_run \<lparr>pkt = bad_padding_buf, symbol_local = [], printed = []\<rparr> 1)
     = bad_padding_buf \<and>
   decode_fields (bbo (snd (main_decode init_state bad_padding_buf)))
     = decode_fields bad_padding_buf \<and>
   take 48 (bbo (snd (main_decode init_state bad_padding_buf))) = bad_padding_buf \<and>
   filter is_warning (fst (main_decode init_state bad_padding_buf)) = [PaddingWarning 0]"
proof -
  have len: "length bad_padding_buf = 48"
    by (simp add: bad_padding_buf_def sample_buf_def)
  have p0: "padding (decode_fields bad_padding_buf) = 0"
    by code_simp
  show ?thesis
    using len
      validation_preserves_record [OF len,
        where f = "\<lparr>pkt = bad_padding_buf, symbol_local = [], printed = []\<rparr>" and i = 1
          and s = init_state]
    by (simp add: warnings_print_bbo p0)
qed

end
